theory Spec2Isabelle
  imports Complex_Main
begin

section \<open>The decision scoring engine of app.py\<close>

text \<open>
  The engine is the function \<open>compute_options\<close> of \<open>src/app.py\<close> (lines 34 to 110).
  Python floats are modelled as reals, as the data model of the specification has them
  (``non-negative real''); the one non-real value the function produces, \<open>float("inf")\<close>,
  is a constructor of its own. Of the effects of IEEE doubles the model keeps the one that
  decides a claim, the overflow of the payback quotient to \<open>inf\<close>; rounding and
  underflow are outside this development.
\<close>

subsection \<open>Values, errors and records\<close>

datatype py_error = KeyError string | NameError string

datatype pyfloat = Finite real | Infinity

text \<open>The dictionaries of the list \<open>options\<close>, before the scoring loop adds \<open>"score"\<close>.\<close>

record option_rec =
  name :: string
  capex :: real
  annual_savings :: real
  payback_years :: pyfloat
  co2_saved_t :: real
  notes_txt :: string

text \<open>The same dictionaries once the loop has stored the key \<open>"score"\<close>.\<close>

record scored_option = option_rec +
  score :: real

subsection \<open>Names visible to the function\<close>

text \<open>
  The names the module binds before line 188 calls \<open>compute_options\<close>: the six import
  statements (lines 1 to 6), the variables assigned in the input form (lines 21 to 29) and
  the three functions. The module has no \<open>import math\<close>, and \<open>math\<close> is not a
  builtin name.
\<close>

definition module_globals :: "string list" where
  "module_globals =
     [''st'', ''BytesIO'', ''A4'', ''SimpleDocTemplate'', ''Paragraph'', ''Spacer'',
      ''Table'', ''TableStyle'', ''getSampleStyleSheet'', ''colors'',
      ''org_name'', ''location'', ''annual_elec_kwh'', ''annual_bill_gbp'',
      ''carbon_target_year'', ''budget_gbp'', ''roof_or_land'', ''include_battery'',
      ''submitted'', ''fmt_gbp'', ''compute_options'', ''build_pdf'']"

text \<open>Looking up a name that is not local: bound in the module, or \<open>NameError\<close>.\<close>

definition lookup_name :: "string list \<Rightarrow> string \<Rightarrow> py_error + unit" where
  "lookup_name g n = (if n \<in> set g then Inr () else Inl (NameError n))"

subsection \<open>The three options (lines 39 to 101)\<close>

definition feas_table :: "(string \<times> real) list" where
  "feas_table =
     [(''High (good roof/land)'', 1.0), (''Medium'', 0.75), (''Low / constrained'', 0.45)]"

text \<open>Line 40: subscripting the dictionary literal raises \<open>KeyError\<close> on any other string.\<close>

definition feas_mult :: "string \<Rightarrow> py_error + real" where
  "feas_mult feasibility =
     (case map_of feas_table feasibility of
        None \<Rightarrow> Inl (KeyError feasibility)
      | Some m \<Rightarrow> Inr m)"

text \<open>Lines 44 to 46.\<close>

definition save_frac :: "real \<Rightarrow> bool \<Rightarrow> real" where
  "save_frac m include_batt = (if \<not> include_batt then 0.55 * m else 0.70 * m)"

text \<open>Line 50: the clamped estimate.\<close>

definition capex_estimate :: "real \<Rightarrow> real \<Rightarrow> real" where
  "capex_estimate annual_kwh m = max 500000 (min 8000000 ((annual_kwh * 1.15) * m / 1000))"

text \<open>Lines 52 to 55: the flag \<open>phased\<close> and the value of \<open>capex_solar_batt\<close> after the test.\<close>

definition phased :: "real \<Rightarrow> real \<Rightarrow> real \<Rightarrow> bool" where
  "phased annual_kwh budget m = (budget > 0 \<and> capex_estimate annual_kwh m > budget)"

definition capex_solar_batt :: "real \<Rightarrow> real \<Rightarrow> real \<Rightarrow> real" where
  "capex_solar_batt annual_kwh budget m =
     (if phased annual_kwh budget m then budget else capex_estimate annual_kwh m)"

text \<open>
  The division of two doubles. Under round-to-nearest a quotient of at least
  \<open>2^1024 - 2^970\<close> (the largest double plus half a unit in its last place) becomes
  \<open>inf\<close>. Where the function divides, the capex and the savings are both positive, so no
  other non-real value arises.
\<close>

definition overflow_threshold :: real where
  "overflow_threshold = 2 ^ 1024 - 2 ^ 970"

definition float_div :: "real \<Rightarrow> real \<Rightarrow> pyfloat" where
  "float_div c s = (if overflow_threshold \<le> c / s then Infinity else Finite (c / s))"

text \<open>Lines 58 and 66: \<open>(c / s) if s > 0 else float("inf")\<close>.\<close>

definition payback_of :: "real \<Rightarrow> real \<Rightarrow> pyfloat" where
  "payback_of c s = (if s > 0 then float_div c s else Infinity)"

definition co2_factor :: real where
  "co2_factor = 0.20"

definition onsite_option :: "real \<Rightarrow> real \<Rightarrow> real \<Rightarrow> real \<Rightarrow> bool \<Rightarrow> option_rec" where
  "onsite_option annual_bill annual_kwh budget m include_batt =
     \<lparr> name = (if include_batt then ''Install Solar + Battery''
               else ''Install Solar (no battery)''),
       capex = capex_solar_batt annual_kwh budget m,
       annual_savings = annual_bill * save_frac m include_batt,
       payback_years =
         payback_of (capex_solar_batt annual_kwh budget m)
                    (annual_bill * save_frac m include_batt),
       co2_saved_t = (annual_kwh * save_frac m include_batt * co2_factor) / 1000,
       notes_txt = (if phased annual_kwh budget m then ''Phased to match budget.''
                else ''On-site generation reduces bills and exposure to volatility.'') \<rparr>"

definition ppa_option :: "real \<Rightarrow> real \<Rightarrow> real \<Rightarrow> option_rec" where
  "ppa_option annual_bill annual_kwh m =
     \<lparr> name = ''Renewable PPA (Power Purchase Agreement)'',
       capex = 25000,
       annual_savings = annual_bill * (0.18 * m),
       payback_years = payback_of 25000 (annual_bill * (0.18 * m)),
       co2_saved_t = (annual_kwh * 0.30 * co2_factor) / 1000,
       notes_txt = ''Low CAPEX; contractual green supply; depends on counterparty and terms.'' \<rparr>"

definition offsets_option :: "real \<Rightarrow> option_rec" where
  "offsets_option annual_kwh =
     \<lparr> name = ''Buy Verified Offsets'',
       capex = annual_kwh * co2_factor / 1000 * 30,
       annual_savings = 0,
       payback_years = Infinity,
       co2_saved_t = (annual_kwh * co2_factor) / 1000,
       notes_txt = ''Improves reporting but does not reduce energy costs; quality varies.'' \<rparr>"

text \<open>
  The list \<open>options\<close> as line 101 leaves it: the run of \<open>compute_options\<close> up to the
  scoring loop.
\<close>

definition build_options ::
  "real \<Rightarrow> real \<Rightarrow> real \<Rightarrow> string \<Rightarrow> bool \<Rightarrow> py_error + option_rec list" where
  "build_options annual_bill annual_kwh budget feasibility include_batt =
     (case feas_mult feasibility of
        Inl e \<Rightarrow> Inl e
      | Inr m \<Rightarrow>
          Inr [onsite_option annual_bill annual_kwh budget m include_batt,
               ppa_option annual_bill annual_kwh m,
               offsets_option annual_kwh])"

subsection \<open>Scoring and ranking (lines 104 to 110)\<close>

text \<open>
  Line 106: \<open>0 if math.isinf(pb) else max(0.0, 10.0 - pb)\<close>. The condition is evaluated
  first, and it starts by looking up the global name \<open>math\<close>.
\<close>

definition pb_score :: "string list \<Rightarrow> pyfloat \<Rightarrow> py_error + real" where
  "pb_score g pb =
     (case lookup_name g ''math'' of
        Inl e \<Rightarrow> Inl e
      | Inr _ \<Rightarrow> Inr (case pb of Infinity \<Rightarrow> 0 | Finite p \<Rightarrow> max 0 (10 - p)))"

text \<open>Line 107, given the value of \<open>pb_score\<close>.\<close>

definition score_value :: "real \<Rightarrow> real \<Rightarrow> real \<Rightarrow> real \<Rightarrow> real \<Rightarrow> real" where
  "score_value annual_bill annual_kwh savings pbs co2 =
     (savings / max annual_bill 1) * 10 + pbs
       + (co2 / max (annual_kwh * co2_factor / 1000) (1 / 1000000)) * 5"

text \<open>One pass of the loop body: lines 105 to 107.\<close>

definition score_option ::
  "string list \<Rightarrow> real \<Rightarrow> real \<Rightarrow> option_rec \<Rightarrow> py_error + scored_option" where
  "score_option g annual_bill annual_kwh opt =
     (case pb_score g (payback_years opt) of
        Inl e \<Rightarrow> Inl e
      | Inr pbs \<Rightarrow>
          Inr \<lparr> name = name opt, capex = capex opt, annual_savings = annual_savings opt,
                payback_years = payback_years opt, co2_saved_t = co2_saved_t opt,
                notes_txt = notes_txt opt,
                score = score_value annual_bill annual_kwh
                          (annual_savings opt) pbs (co2_saved_t opt) \<rparr>)"

text \<open>The loop of line 104: an exception in one pass ends it.\<close>

fun score_all ::
  "string list \<Rightarrow> real \<Rightarrow> real \<Rightarrow> option_rec list \<Rightarrow> py_error + scored_option list" where
  "score_all g annual_bill annual_kwh [] = Inr []"
| "score_all g annual_bill annual_kwh (opt # opts) =
     (case score_option g annual_bill annual_kwh opt of
        Inl e \<Rightarrow> Inl e
      | Inr s \<Rightarrow>
          (case score_all g annual_bill annual_kwh opts of
             Inl e \<Rightarrow> Inl e
           | Inr ss \<Rightarrow> Inr (s # ss)))"

text \<open>
  Line 109: \<open>sorted(options, key=lambda x: x["score"], reverse=True)\<close>. Python's sort is
  stable, also with \<open>reverse=True\<close>: records of equal score keep their order. Inserting
  from the right, a record goes in front of the first one whose score is not greater.
\<close>

fun insert_desc :: "scored_option \<Rightarrow> scored_option list \<Rightarrow> scored_option list" where
  "insert_desc x [] = [x]"
| "insert_desc x (y # ys) =
     (if score y > score x then y # insert_desc x ys else x # y # ys)"

definition sorted_desc :: "scored_option list \<Rightarrow> scored_option list" where
  "sorted_desc xs = foldr insert_desc xs []"

text \<open>The whole function, run with the global names \<open>g\<close>.\<close>

definition compute_options_in ::
  "string list \<Rightarrow> real \<Rightarrow> real \<Rightarrow> real \<Rightarrow> string \<Rightarrow> bool \<Rightarrow> py_error + scored_option list" where
  "compute_options_in g annual_bill annual_kwh budget feasibility include_batt =
     (case build_options annual_bill annual_kwh budget feasibility include_batt of
        Inl e \<Rightarrow> Inl e
      | Inr opts \<Rightarrow>
          (case score_all g annual_bill annual_kwh opts of
             Inl e \<Rightarrow> Inl e
           | Inr scored \<Rightarrow> Inr (sorted_desc scored)))"

text \<open>The function as the module runs it.\<close>

definition compute_options ::
  "real \<Rightarrow> real \<Rightarrow> real \<Rightarrow> string \<Rightarrow> bool \<Rightarrow> py_error + scored_option list" where
  "compute_options = compute_options_in module_globals"


subsection \<open>The loop body once \<open>math\<close> resolves\<close>

text \<open>
  What lines 106 and 107 compute in a module that binds \<open>math\<close>: the value of
  \<open>pb_score\<close> and the record with its score. They are used to state what the scoring
  formula does where the name lookup succeeds.
\<close>

definition pb_value :: "pyfloat \<Rightarrow> real" where
  "pb_value pb = (case pb of Infinity \<Rightarrow> 0 | Finite p \<Rightarrow> max 0 (10 - p))"

definition with_score :: "real \<Rightarrow> real \<Rightarrow> option_rec \<Rightarrow> scored_option" where
  "with_score annual_bill annual_kwh opt =
     \<lparr> name = name opt, capex = capex opt, annual_savings = annual_savings opt,
       payback_years = payback_years opt, co2_saved_t = co2_saved_t opt,
       notes_txt = notes_txt opt,
       score = score_value annual_bill annual_kwh
                 (annual_savings opt) (pb_value (payback_years opt)) (co2_saved_t opt) \<rparr>"

section \<open>Basic facts\<close>

lemma feas_mult_High: "feas_mult ''High (good roof/land)'' = Inr 1"
  by (simp add: feas_mult_def feas_table_def)

lemma feas_mult_Medium: "feas_mult ''Medium'' = Inr 0.75"
  by (simp add: feas_mult_def feas_table_def)

lemma feas_mult_Low: "feas_mult ''Low / constrained'' = Inr 0.45"
  by (simp add: feas_mult_def feas_table_def)

lemma feas_mult_cases:
  "feas_mult f = Inr m \<Longrightarrow> m = 1 \<or> m = 0.75 \<or> m = 0.45"
  by (auto simp: feas_mult_def feas_table_def split: if_splits)

lemma feas_mult_pos: "feas_mult f = Inr m \<Longrightarrow> 0 < m"
  using feas_mult_cases [of f m] by auto

lemma build_options_Inr:
  "feas_mult f = Inr m \<Longrightarrow>
   build_options bill kwh budget f batt =
     Inr [onsite_option bill kwh budget m batt, ppa_option bill kwh m, offsets_option kwh]"
  by (simp add: build_options_def)

lemma save_frac_pos: "0 < m \<Longrightarrow> 0 < save_frac m batt"
  by (simp add: save_frac_def)

lemma capex_solar_batt_pos: "0 < capex_solar_batt kwh budget m"
  by (auto simp: capex_solar_batt_def phased_def capex_estimate_def)

lemma payback_of_rule:
  "0 \<le> c \<Longrightarrow> 0 \<le> s \<Longrightarrow>
   (\<forall>p. payback_of c s = Finite p \<longrightarrow> 0 \<le> p)
   \<and> (0 < s \<and> c / s < overflow_threshold \<longrightarrow> payback_of c s = Finite (c / s))
   \<and> (payback_of c s = Infinity \<longleftrightarrow> s = 0 \<or> overflow_threshold \<le> c / s)"
  by (auto simp: payback_of_def float_div_def)


subsection \<open>The missing import\<close>

lemma math_unbound: "lookup_name module_globals ''math'' = Inl (NameError ''math'')"
  by (simp add: lookup_name_def module_globals_def)

lemma pb_score_unbound: "pb_score module_globals pb = Inl (NameError ''math'')"
  by (simp add: pb_score_def math_unbound)

lemma score_option_unbound:
  "score_option module_globals bill kwh opt = Inl (NameError ''math'')"
  by (simp add: score_option_def pb_score_unbound)


lemma compute_options_raises:
  "feas_mult f = Inr m \<Longrightarrow>
   compute_options bill kwh budget f batt = Inl (NameError ''math'')"
  by (simp add: compute_options_def compute_options_in_def build_options_Inr
      score_option_unbound)

lemma compute_options_KeyError:
  "feas_mult f = Inl e \<Longrightarrow> compute_options bill kwh budget f batt = Inl e"
  by (simp add: compute_options_def compute_options_in_def build_options_def)

lemma compute_options_never_returns:
  "compute_options bill kwh budget f batt \<noteq> Inr rs"
  by (cases "feas_mult f") (simp_all add: compute_options_raises compute_options_KeyError)

subsection \<open>The sort\<close>

lemma length_insert_desc: "length (insert_desc x ys) = Suc (length ys)"
  by (induction ys) simp_all

lemma length_sorted_desc: "length (sorted_desc xs) = length xs"
  by (induction xs) (simp_all add: sorted_desc_def length_insert_desc)

lemma set_insert_desc: "set (insert_desc x ys) = insert x (set ys)"
  by (induction ys) auto


lemma sorted_insert_desc:
  "sorted_wrt (\<lambda>a b. score b \<le> score a) ys \<Longrightarrow>
   sorted_wrt (\<lambda>a b. score b \<le> score a) (insert_desc x ys)"
  by (induction ys) (auto simp: set_insert_desc)

lemma sorted_sorted_desc: "sorted_wrt (\<lambda>a b. score b \<le> score a) (sorted_desc xs)"
  by (induction xs) (simp_all add: sorted_desc_def sorted_insert_desc)

lemma filter_insert_desc:
  "filter (\<lambda>r. score r = k) (insert_desc x ys) = filter (\<lambda>r. score r = k) (x # ys)"
  by (induction ys) auto

text \<open>Stability: the records of any one score come out in the order they went in.\<close>

lemma sorted_desc_stable:
  "filter (\<lambda>r. score r = k) (sorted_desc xs) = filter (\<lambda>r. score r = k) xs"
proof (induction xs)
  case Nil
  show ?case by (simp add: sorted_desc_def)
next
  case (Cons x xs)
  have "filter (\<lambda>r. score r = k) (sorted_desc (x # xs))
      = filter (\<lambda>r. score r = k) (x # sorted_desc xs)"
    by (simp only: sorted_desc_def foldr.simps o_apply filter_insert_desc)
  with Cons show ?case by simp
qed

subsection \<open>Scoring where \<open>math\<close> is bound\<close>

text \<open>
  The facts below are about \<open>compute_options_in g\<close> for a \<open>g\<close> that holds \<open>math\<close>,
  that is, about the module with the import added. They show that the arithmetic of lines
  104 to 110 is what the specification describes; none of them is about
  \<open>compute_options\<close> itself.
\<close>

lemma pb_score_bound: "''math'' \<in> set g \<Longrightarrow> pb_score g pb = Inr (pb_value pb)"
  by (simp add: pb_score_def lookup_name_def pb_value_def)

lemma score_option_bound:
  "''math'' \<in> set g \<Longrightarrow> score_option g bill kwh opt = Inr (with_score bill kwh opt)"
  by (simp add: score_option_def pb_score_bound with_score_def)

lemma score_all_bound:
  "''math'' \<in> set g \<Longrightarrow> score_all g bill kwh opts = Inr (map (with_score bill kwh) opts)"
  by (induction opts) (simp_all add: score_option_bound)

lemma compute_options_in_bound:
  assumes g: "''math'' \<in> set g" and fm: "feas_mult f = Inr m"
  shows "compute_options_in g bill kwh budget f batt =
           Inr (sorted_desc (map (with_score bill kwh)
                  [onsite_option bill kwh budget m batt, ppa_option bill kwh m,
                   offsets_option kwh]))"
  by (simp add: compute_options_in_def build_options_Inr [OF fm] score_all_bound [OF g]
      del: score_all.simps)

lemma ranking_when_math_is_bound:
  assumes g: "''math'' \<in> set g" and fm: "feas_mult f = Inr m"
  shows "\<exists>rs. compute_options_in g bill kwh budget f batt = Inr rs
      \<and> length rs = 3
      \<and> sorted_wrt (\<lambda>a b. score b \<le> score a) rs
      \<and> (\<forall>k. filter (\<lambda>r. score r = k) rs
             = filter (\<lambda>r. score r = k)
                 (map (with_score bill kwh)
                    [onsite_option bill kwh budget m batt, ppa_option bill kwh m,
                     offsets_option kwh]))"
  by (simp add: compute_options_in_bound [OF g fm] length_sorted_desc sorted_sorted_desc
      sorted_desc_stable)



lemma score_monotone_when_math_is_bound:
  shows "s \<le> s' \<Longrightarrow>
           score (with_score bill kwh (opt\<lparr>annual_savings := s\<rparr>))
             \<le> score (with_score bill kwh (opt\<lparr>annual_savings := s'\<rparr>))"
    and "c \<le> c' \<Longrightarrow>
           score (with_score bill kwh (opt\<lparr>co2_saved_t := c\<rparr>))
             \<le> score (with_score bill kwh (opt\<lparr>co2_saved_t := c'\<rparr>))"
    and "0 \<le> p \<Longrightarrow> p < p' \<Longrightarrow> p' \<le> 10 \<Longrightarrow>
           score (with_score bill kwh (opt\<lparr>payback_years := Finite p'\<rparr>))
             < score (with_score bill kwh (opt\<lparr>payback_years := Finite p\<rparr>))"
    and "10 \<le> p \<Longrightarrow> pb_value (Finite p) = 0"
    and "pb_value Infinity = 0"
  by (simp_all add: with_score_def score_value_def pb_value_def divide_right_mono)

lemma offsets_score_when_math_is_bound:
  assumes g: "''math'' \<in> set g" and kwh: "1 / 1000000 \<le> kwh * 0.20 / 1000"
  shows "score_option g bill kwh (offsets_option kwh)
           = Inr (with_score bill kwh (offsets_option kwh))
       \<and> score (with_score bill kwh (offsets_option kwh)) = 5"
proof -
  have "score_value bill kwh 0 0 (kwh * co2_factor / 1000) = 5"
    using kwh by (simp add: score_value_def co2_factor_def max_def)
  then show ?thesis
    by (simp add: score_option_bound [OF g] with_score_def offsets_option_def pb_value_def)
qed



section \<open>The claims\<close>

subsection \<open>Claims about the records the function builds\<close>

text \<open>
  Claim C1, as stated: for a valid input the on-site capex lies within \<open>[500000, budget]\<close>
  whenever \<open>budget > 0\<close> and the clamped estimate exceeds \<open>budget\<close>. It fails for a
  positive budget below the floor of the clamp: with a budget of 100000 and an estimate of
  500000, line 55 sets the capex to 100000, which is not at least 500000.
\<close>

theorem onsite_capex_floor_counterexample:
  "build_options 2000000 3500000 100000 ''High (good roof/land)'' True
     = Inr [onsite_option 2000000 3500000 100000 1 True,
            ppa_option 2000000 3500000 1, offsets_option 3500000]
   \<and> (0::real) < 100000
   \<and> max 500000 (min 8000000 (3500000 * 1.15 * 1 / 1000)) > (100000::real)
   \<and> capex (onsite_option 2000000 3500000 100000 1 True) = 100000
   \<and> \<not> (500000 \<le> capex (onsite_option 2000000 3500000 100000 1 True)
        \<and> capex (onsite_option 2000000 3500000 100000 1 True) \<le> 100000)"
  by (simp add: build_options_Inr [OF feas_mult_High] onsite_option_def capex_solar_batt_def
      phased_def capex_estimate_def)

text \<open>
  Claim C1, amended: for a recognised tier the function builds its three records, and
  whenever \<open>budget > 0\<close> and the clamped estimate exceeds \<open>budget\<close> the on-site capex is
  exactly \<open>budget\<close> (positive and at most \<open>budget\<close>, so within \<open>[500000, budget]\<close> only
  when \<open>budget\<close> is at least 500000) and the record is marked phased; otherwise the capex is
  the clamped estimate, within \<open>[500000, 8000000]\<close>, and the record carries the generic
  note.
\<close>

theorem onsite_capex_phased_or_clamped:
  "feas_mult feasibility = Inr m \<Longrightarrow>
   build_options bill kwh budget feasibility batt
     = Inr [onsite_option bill kwh budget m batt, ppa_option bill kwh m, offsets_option kwh]
   \<and> (if 0 < budget \<and> budget < max 500000 (min 8000000 (kwh * 1.15 * m / 1000))
       then capex (onsite_option bill kwh budget m batt) = budget
          \<and> 0 < capex (onsite_option bill kwh budget m batt)
          \<and> capex (onsite_option bill kwh budget m batt) \<le> budget
          \<and> notes_txt (onsite_option bill kwh budget m batt) = ''Phased to match budget.''
       else capex (onsite_option bill kwh budget m batt)
              = max 500000 (min 8000000 (kwh * 1.15 * m / 1000))
          \<and> 500000 \<le> capex (onsite_option bill kwh budget m batt)
          \<and> capex (onsite_option bill kwh budget m batt) \<le> 8000000
          \<and> notes_txt (onsite_option bill kwh budget m batt)
              = ''On-site generation reduces bills and exposure to volatility.'')"
  by (simp add: build_options_Inr onsite_option_def capex_solar_batt_def
      phased_def capex_estimate_def)

text \<open>
  Witness for C1: a budget of 1000000 against an estimate of 1150000 is phased to the
  budget; a budget of 4500000 against an estimate of 500000 is not.
\<close>

theorem onsite_capex_phased_or_clamped_witness:
  "feas_mult ''High (good roof/land)'' = Inr 1
   \<and> capex (onsite_option 2000000 1000000000 1000000 1 True) = 1000000
   \<and> notes_txt (onsite_option 2000000 1000000000 1000000 1 True) = ''Phased to match budget.''
   \<and> capex (onsite_option 2000000 3500000 4500000 1 True) = 500000
   \<and> notes_txt (onsite_option 2000000 3500000 4500000 1 True)
        = ''On-site generation reduces bills and exposure to volatility.''"
  using onsite_capex_phased_or_clamped [OF feas_mult_High, of 2000000 1000000000 1000000 True]
        onsite_capex_phased_or_clamped [OF feas_mult_High, of 2000000 3500000 4500000 True]
  by (simp add: feas_mult_High)

text \<open>
  Claim C4, as stated: the payback of a record is infinite if and only if its savings are
  zero. It fails where the double quotient overflows: with a bill of \<open>1e-303\<close> (tier High,
  battery included) the on-site savings are \<open>7e-304\<close>, positive, and
  \<open>500000 / 7e-304\<close> exceeds the double range, so line 58 stores \<open>inf\<close>.
\<close>

theorem payback_overflow_counterexample:
  "(0::real) \<le> 1 / 10 ^ 303
   \<and> build_options (1 / 10 ^ 303) 3500000 4500000 ''High (good roof/land)'' True
       = Inr [onsite_option (1 / 10 ^ 303) 3500000 4500000 1 True,
              ppa_option (1 / 10 ^ 303) 3500000 1, offsets_option 3500000]
   \<and> 0 < annual_savings (onsite_option (1 / 10 ^ 303) 3500000 4500000 1 True)
   \<and> payback_years (onsite_option (1 / 10 ^ 303) 3500000 4500000 1 True) = Infinity
   \<and> \<not> (payback_years (onsite_option (1 / 10 ^ 303) 3500000 4500000 1 True) = Infinity
        \<longleftrightarrow> annual_savings (onsite_option (1 / 10 ^ 303) 3500000 4500000 1 True) = 0)"
  by (simp add: build_options_Inr [OF feas_mult_High] onsite_option_def save_frac_def
      capex_solar_batt_def phased_def capex_estimate_def payback_of_def float_div_def
      overflow_threshold_def)

text \<open>
  Claim C4, amended: for a non-negative bill and a recognised tier, each of the three
  records the function builds has a payback that is never negative, that is the quotient
  \<open>capex / annual_savings\<close> when the savings are positive and the quotient stays below
  the overflow threshold \<open>2^1024 - 2^970\<close>, and that is infinite exactly when the savings
  are zero or the quotient reaches that threshold. The test \<open>annual_savings > 0\<close> guards
  the division, so zero savings divide nothing by zero and a payback is a real or
  \<open>float("inf")\<close>, never a NaN.
\<close>

theorem payback_rule_with_overflow:
  "0 \<le> bill \<Longrightarrow> feas_mult feasibility = Inr m \<Longrightarrow>
   build_options bill kwh budget feasibility batt
     = Inr [onsite_option bill kwh budget m batt, ppa_option bill kwh m, offsets_option kwh]
   \<and> list_all (\<lambda>r. (\<forall>p. payback_years r = Finite p \<longrightarrow> 0 \<le> p)
                   \<and> (0 < annual_savings r \<and> capex r / annual_savings r < overflow_threshold
                        \<longrightarrow> payback_years r = Finite (capex r / annual_savings r))
                   \<and> (payback_years r = Infinity \<longleftrightarrow>
                        annual_savings r = 0
                        \<or> overflow_threshold \<le> capex r / annual_savings r))
        [onsite_option bill kwh budget m batt, ppa_option bill kwh m, offsets_option kwh]"
proof -
  assume bill: "0 \<le> bill" and fm: "feas_mult feasibility = Inr m"
  have m: "0 < m" using fm by (rule feas_mult_pos)
  have s1: "0 \<le> bill * save_frac m batt"
    using bill save_frac_pos [OF m, of batt] by simp
  have s2: "0 \<le> bill * (0.18 * m)"
    using bill m by simp
  have c1: "0 \<le> capex_solar_batt kwh budget m"
    using capex_solar_batt_pos [of kwh budget m] by simp
  have on: "(\<forall>p. payback_years (onsite_option bill kwh budget m batt) = Finite p \<longrightarrow> 0 \<le> p)
      \<and> (0 < annual_savings (onsite_option bill kwh budget m batt)
          \<and> capex (onsite_option bill kwh budget m batt)
              / annual_savings (onsite_option bill kwh budget m batt) < overflow_threshold
          \<longrightarrow> payback_years (onsite_option bill kwh budget m batt)
              = Finite (capex (onsite_option bill kwh budget m batt)
                        / annual_savings (onsite_option bill kwh budget m batt)))
      \<and> (payback_years (onsite_option bill kwh budget m batt) = Infinity
            \<longleftrightarrow> annual_savings (onsite_option bill kwh budget m batt) = 0
              \<or> overflow_threshold \<le> capex (onsite_option bill kwh budget m batt)
                  / annual_savings (onsite_option bill kwh budget m batt))"
    using payback_of_rule [OF c1 s1] by (simp add: onsite_option_def)
  have ppa: "(\<forall>p. payback_years (ppa_option bill kwh m) = Finite p \<longrightarrow> 0 \<le> p)
      \<and> (0 < annual_savings (ppa_option bill kwh m)
          \<and> capex (ppa_option bill kwh m) / annual_savings (ppa_option bill kwh m)
              < overflow_threshold
          \<longrightarrow> payback_years (ppa_option bill kwh m)
              = Finite (capex (ppa_option bill kwh m) / annual_savings (ppa_option bill kwh m)))
      \<and> (payback_years (ppa_option bill kwh m) = Infinity
            \<longleftrightarrow> annual_savings (ppa_option bill kwh m) = 0
              \<or> overflow_threshold \<le> capex (ppa_option bill kwh m)
                  / annual_savings (ppa_option bill kwh m))"
    using payback_of_rule [OF _ s2, of 25000] by (simp add: ppa_option_def)
  have off: "(\<forall>p. payback_years (offsets_option kwh) = Finite p \<longrightarrow> 0 \<le> p)
      \<and> (0 < annual_savings (offsets_option kwh)
          \<and> capex (offsets_option kwh) / annual_savings (offsets_option kwh)
              < overflow_threshold
          \<longrightarrow> payback_years (offsets_option kwh)
              = Finite (capex (offsets_option kwh) / annual_savings (offsets_option kwh)))
      \<and> (payback_years (offsets_option kwh) = Infinity
            \<longleftrightarrow> annual_savings (offsets_option kwh) = 0
              \<or> overflow_threshold \<le> capex (offsets_option kwh)
                  / annual_savings (offsets_option kwh))"
    by (simp add: offsets_option_def)
  show ?thesis
    using on ppa off by (simp add: build_options_Inr [OF fm])
qed

text \<open>
  Witness for C4: the form's default input (finite paybacks 5/14 and 5/72, offsets
  infinite) and the same input with a bill of zero (all paybacks infinite).
\<close>

theorem payback_rule_with_overflow_witness:
  "(0::real) \<le> 2000000 \<and> feas_mult ''High (good roof/land)'' = Inr 1
   \<and> payback_years (onsite_option 2000000 3500000 4500000 1 True) = Finite (5 / 14)
   \<and> payback_years (ppa_option 2000000 3500000 1) = Finite (5 / 72)
   \<and> payback_years (offsets_option 3500000) = Infinity
   \<and> payback_years (onsite_option 0 3500000 4500000 1 True) = Infinity
   \<and> payback_years (ppa_option 0 3500000 1) = Infinity"
proof -
  have h: "(0::real) \<le> 2000000" by simp
  have z: "(0::real) \<le> 0" by simp
  show ?thesis
    using payback_rule_with_overflow [OF h feas_mult_High, of 3500000 4500000 True]
          payback_rule_with_overflow [OF z feas_mult_High, of 3500000 4500000 True]
    by (simp add: feas_mult_High onsite_option_def ppa_option_def offsets_option_def
        save_frac_def capex_solar_batt_def phased_def capex_estimate_def
        overflow_threshold_def)
qed

text \<open>
  Claim C6: with a budget of zero and a recognised tier no phasing is applied. The on-site
  capex is the clamped estimate \<open>max(500000, min(8000000, annual_kwh * 1.15 * multiplier /
  1000))\<close>, which exceeds the zero budget, and the note is the generic on-site text.
\<close>

theorem zero_budget_not_phased:
  "feas_mult feasibility = Inr m \<Longrightarrow>
   build_options bill kwh 0 feasibility batt
     = Inr [onsite_option bill kwh 0 m batt, ppa_option bill kwh m, offsets_option kwh]
   \<and> capex (onsite_option bill kwh 0 m batt) = max 500000 (min 8000000 (kwh * 1.15 * m / 1000))
   \<and> 0 < capex (onsite_option bill kwh 0 m batt)
   \<and> notes_txt (onsite_option bill kwh 0 m batt)
        = ''On-site generation reduces bills and exposure to volatility.''"
  by (simp add: build_options_Inr onsite_option_def capex_solar_batt_def
      phased_def capex_estimate_def)

text \<open>Witness for C6: tier Medium, 1000000000 kWh, budget 0: the capex is 862500.\<close>

theorem zero_budget_not_phased_witness:
  "feas_mult ''Medium'' = Inr 0.75
   \<and> capex (onsite_option 2000000 1000000000 0 0.75 False) = 862500
   \<and> notes_txt (onsite_option 2000000 1000000000 0 0.75 False)
        = ''On-site generation reduces bills and exposure to volatility.''"
  using zero_budget_not_phased [OF feas_mult_Medium, of 2000000 1000000000 False]
  by (simp add: feas_mult_Medium)

text \<open>
  Claim C7: for a recognised tier (High 1.0, Medium 0.75, Low 0.45) the PPA record has a
  capex of exactly 25000, savings of \<open>annual_bill * 0.18 * multiplier\<close> and a CO2 figure
  of \<open>annual_kwh * 0.30 * 0.20 / 1000\<close>, the same under any other multiplier \<open>m'\<close>.
\<close>

theorem ppa_record_fields:
  "feas_mult feasibility = Inr m \<Longrightarrow>
   build_options bill kwh budget feasibility batt
     = Inr [onsite_option bill kwh budget m batt, ppa_option bill kwh m, offsets_option kwh]
   \<and> (m = 1 \<and> feasibility = ''High (good roof/land)''
      \<or> m = 0.75 \<and> feasibility = ''Medium''
      \<or> m = 0.45 \<and> feasibility = ''Low / constrained'')
   \<and> capex (ppa_option bill kwh m) = 25000
   \<and> annual_savings (ppa_option bill kwh m) = bill * 0.18 * m
   \<and> co2_saved_t (ppa_option bill kwh m) = kwh * 0.30 * 0.20 / 1000
   \<and> co2_saved_t (ppa_option bill kwh m) = co2_saved_t (ppa_option bill kwh m')"
  by (auto simp: build_options_Inr ppa_option_def co2_factor_def feas_mult_def feas_table_def
      split: if_splits)

text \<open>Witness for C7: tier Low, a bill of 2000000 and 3500000 kWh.\<close>

theorem ppa_record_fields_witness:
  "feas_mult ''Low / constrained'' = Inr 0.45
   \<and> capex (ppa_option 2000000 3500000 0.45) = 25000
   \<and> annual_savings (ppa_option 2000000 3500000 0.45) = 162000
   \<and> co2_saved_t (ppa_option 2000000 3500000 0.45) = 210"
  using ppa_record_fields [OF feas_mult_Low, of 2000000 3500000 4500000 True 1]
  by (simp add: feas_mult_Low)

text \<open>
  Claim C8: for a recognised tier the offsets record has savings of zero, an infinite
  payback, a capex of \<open>annual_kwh * (0.20 / 1000) * 30\<close> and a CO2 figure of
  \<open>annual_kwh * 0.20 / 1000\<close>.
\<close>

theorem offsets_record_fields:
  "feas_mult feasibility = Inr m \<Longrightarrow>
   build_options bill kwh budget feasibility batt
     = Inr [onsite_option bill kwh budget m batt, ppa_option bill kwh m, offsets_option kwh]
   \<and> annual_savings (offsets_option kwh) = 0
   \<and> payback_years (offsets_option kwh) = Infinity
   \<and> capex (offsets_option kwh) = kwh * (0.20 / 1000) * 30
   \<and> co2_saved_t (offsets_option kwh) = kwh * 0.20 / 1000"
  by (simp add: build_options_Inr offsets_option_def co2_factor_def)

text \<open>Witness for C8: 1000000 kWh give a capex of 6000 and 200 tonnes.\<close>

theorem offsets_record_fields_witness:
  "feas_mult ''High (good roof/land)'' = Inr 1
   \<and> annual_savings (offsets_option 1000000) = 0
   \<and> payback_years (offsets_option 1000000) = Infinity
   \<and> capex (offsets_option 1000000) = 6000
   \<and> co2_saved_t (offsets_option 1000000) = 200"
  using offsets_record_fields [OF feas_mult_High, of 2000000 1000000 4500000 True]
  by (simp add: feas_mult_High)

subsection \<open>Claims that need the scoring loop to run\<close>

text \<open>
  Claim C2 says that the function completes without raising and returns three records for
  every valid input. On the form's default input (a valid one) the run ends in
  \<open>NameError: name 'math' is not defined\<close> at line 106: the module never imports
  \<open>math\<close>. By \<open>compute_options_raises\<close> the same happens for every recognised tier.
\<close>

theorem default_input_raises_NameError:
  "compute_options 2000000 3500000 4500000 ''High (good roof/land)'' True
     = Inl (NameError ''math'')"
  by (rule compute_options_raises [OF feas_mult_High])

text \<open>
  Claim C3 says that the function returns exactly three records in stable descending order
  of score. On this valid input nothing is returned: the first pass of the loop raises
  before line 109 sorts. Where \<open>math\<close> is bound the ranking is as claimed
  (\<open>ranking_when_math_is_bound\<close>).
\<close>

theorem no_ranking_returned:
  "compute_options 2000000 3500000 4500000 ''Low / constrained'' False
     = Inl (NameError ''math'')"
  by (rule compute_options_raises [OF feas_mult_Low])

text \<open>
  Claim C5 says that the score falls strictly as the payback grows within \<open>[0, 10]\<close> and
  that the payback term is zero from 10 years on. In the module line 106 yields no number
  for any payback, finite or infinite: it raises. Where \<open>math\<close> is bound the formula is
  monotone as claimed (\<open>score_monotone_when_math_is_bound\<close>).
\<close>

theorem payback_term_never_computed:
  "pb_score module_globals (Finite 3) = Inl (NameError ''math'')
   \<and> pb_score module_globals (Finite 7) = Inl (NameError ''math'')
   \<and> pb_score module_globals (Finite 12) = Inl (NameError ''math'')
   \<and> pb_score module_globals Infinity = Inl (NameError ''math'')"
  by (simp add: pb_score_unbound)

text \<open>
  Claim C9 says that the offsets record's score is exactly 5 once \<open>annual_kwh\<close> is at
  least 0.005. With 1000000 kWh the loop body raises on the offsets record, and the whole
  run raises before reaching it, so the record never has a score. Where \<open>math\<close> is bound
  the score is 5 (\<open>offsets_score_when_math_is_bound\<close>).
\<close>

theorem offsets_score_never_computed:
  "score_option module_globals 2000000 1000000 (offsets_option 1000000)
     = Inl (NameError ''math'')
   \<and> compute_options 2000000 1000000 4500000 ''High (good roof/land)'' True
     = Inl (NameError ''math'')"
  by (simp add: score_option_unbound compute_options_raises [OF feas_mult_High])



end
